theory Spec2Isabelle
  imports Complex_Main
begin

section \<open>Python values used by the media suite\<close>

text \<open>
  The exceptions the modelled code can raise. Every raise of the source is a branch of
  the model whose result carries one of these: \<open>Inl\<close> of a sum where the method
  computes a value, the last component of the result where the method has changed
  the object before it raises.
\<close>

datatype py_error = IndexError | AttributeError | StopIteration | ValueError | OSError string

subsection \<open>Strings\<close>

text \<open>\<^verbatim>\<open>needle in s\<close> on Python strings: contiguous substring.\<close>

fun startswith :: "string \<Rightarrow> string \<Rightarrow> bool" where
  "startswith s [] = True"
| "startswith [] (p # ps) = False"
| "startswith (c # cs) (p # ps) = (c = p \<and> startswith cs ps)"

fun contains :: "string \<Rightarrow> string \<Rightarrow> bool" where
  "contains [] needle = (needle = [])"
| "contains (c # cs) needle = (startswith (c # cs) needle \<or> contains cs needle)"

definition endswith :: "string \<Rightarrow> string \<Rightarrow> bool" where
  "endswith s suffix = startswith (rev s) (rev suffix)"

text \<open>
  \<^verbatim>\<open>s.split()\<close>: split at runs of whitespace, no empty words. The ASCII whitespace
  of Python's \<^verbatim>\<open>str.isspace\<close> is modelled (tab, line feed, vertical tab, form feed,
  carriage return, the four separators 0x1C to 0x1F and the space).
\<close>

definition is_space :: "char \<Rightarrow> bool" where
  "is_space c = (of_char c \<in> {9, 10, 11, 12, 13, 28, 29, 30, 31, 32 :: nat})"

fun split_ws :: "string \<Rightarrow> string \<Rightarrow> string list" where
  "split_ws cur [] = (if cur = [] then [] else [cur])"
| "split_ws cur (c # cs) =
     (if is_space c then (if cur = [] then split_ws [] cs else cur # split_ws [] cs)
      else split_ws (cur @ [c]) cs)"

definition split :: "string \<Rightarrow> string list" where
  "split s = split_ws [] s"

text \<open>\<^verbatim>\<open>s.split(sep)\<close> for a one-character separator; empty words are kept.\<close>

fun split_on :: "char \<Rightarrow> string \<Rightarrow> string list" where
  "split_on sep [] = [[]]"
| "split_on sep (c # cs) =
     (if c = sep then [] # split_on sep cs
      else (case split_on sep cs of [] \<Rightarrow> [[c]] | w # ws \<Rightarrow> (c # w) # ws))"

text \<open>\<^verbatim>\<open>sep.join(words)\<close>.\<close>

fun join :: "string \<Rightarrow> string list \<Rightarrow> string" where
  "join sep [] = []"
| "join sep [w] = w"
| "join sep (w # v # ws) = w @ sep @ join sep (v # ws)"

text \<open>\<^verbatim>\<open>s.rfind(c)\<close>, with \<open>None\<close> for Python's \<open>-1\<close>.\<close>

definition rfind :: "string \<Rightarrow> char \<Rightarrow> nat option" where
  "rfind s c =
     (if c \<in> set s then Some (length s - 1 - length (takeWhile (\<lambda>x. x \<noteq> c) (rev s)))
      else None)"

text \<open>
  Subscription \<^verbatim>\<open>xs[i]\<close> of a Python list. Positions \<open>0\<close> to \<open>len - 1\<close> are read
  directly, positions \<open>-len\<close> to \<open>-1\<close> are read from the back, every other position
  raises.
\<close>

definition py_index :: "'a list \<Rightarrow> int \<Rightarrow> py_error + 'a" where
  "py_index xs i =
     (if 0 \<le> i \<and> i < int (length xs) then Inr (xs ! nat i)
      else if i < 0 \<and> - int (length xs) \<le> i then Inr (xs ! nat (int (length xs) + i))
      else Inl IndexError)"

text \<open>\<^verbatim>\<open>int(x)\<close> on a float: truncation towards zero.\<close>

definition py_int :: "rat \<Rightarrow> int" where
  "py_int x = (if 0 \<le> x then \<lfloor>x\<rfloor> else \<lceil>x\<rceil>)"

text \<open>\<^verbatim>\<open>str(n)\<close> on an int: decimal digits, a minus sign when negative.\<close>

definition digit_char :: "nat \<Rightarrow> char" where
  "digit_char d = char_of (48 + d)"

function str_nat :: "nat \<Rightarrow> string" where
  "str_nat n = (if n < 10 then [digit_char n] else str_nat (n div 10) @ [digit_char (n mod 10)])"
  by pat_completeness auto
termination
  by (relation "measure id") auto

declare str_nat.simps [simp del]

definition str_int :: "int \<Rightarrow> string" where
  "str_int i = (if i < 0 then CHR ''-'' # str_nat (nat (- i)) else str_nat (nat i))"

text \<open>
  \<^verbatim>\<open>int(s)\<close> on a string: surrounding whitespace, an optional sign, decimal digits.
  (Python also accepts single underscores between digits; no caller produces them.)
\<close>

definition digit_val :: "char \<Rightarrow> nat option" where
  "digit_val c = (let n = (of_char c :: nat) in if 48 \<le> n \<and> n \<le> 57 then Some (n - 48) else None)"

fun parse_digits :: "nat \<Rightarrow> string \<Rightarrow> nat option" where
  "parse_digits acc [] = Some acc"
| "parse_digits acc (c # cs) =
     (case digit_val c of None \<Rightarrow> None | Some d \<Rightarrow> parse_digits (10 * acc + d) cs)"

definition strip :: "string \<Rightarrow> string" where
  "strip s = rev (dropWhile is_space (rev (dropWhile is_space s)))"

definition int_of_string :: "string \<Rightarrow> py_error + int" where
  "int_of_string s =
     (let t = strip s;
          neg = startswith t ''-'' ;
          body = (if startswith t ''-'' \<or> startswith t ''+'' then tl t else t)
      in if body = [] then Inl ValueError
         else (case parse_digits 0 body of
                 None \<Rightarrow> Inl ValueError
               | Some n \<Rightarrow> Inr (if neg then - int n else int n)))"

subsection \<open>pathlib paths (POSIX flavour)\<close>

text \<open>
  A \<^verbatim>\<open>pathlib.PurePosixPath\<close> is its root (\<open>''''\<close>, \<open>''/''\<close> or \<open>''//''\<close>) and its
  components. Parsing drops empty components and \<open>.\<close> components.
\<close>

datatype path = Path (path_root: string) (path_parts: "string list")

definition parse_root :: "string \<Rightarrow> string" where
  "parse_root s =
     (if startswith s ''//'' \<and> \<not> startswith s ''///'' then ''//''
      else if startswith s ''/'' then ''/''
      else '''')"

definition parse_path :: "string \<Rightarrow> path" where
  "parse_path s = Path (parse_root s) (filter (\<lambda>p. p \<noteq> [] \<and> p \<noteq> ''.'') (split_on CHR ''/'' s))"

definition str_path :: "path \<Rightarrow> string" where
  "str_path p =
     (if path_root p = [] \<and> path_parts p = [] then ''.''
      else path_root p @ join ''/'' (path_parts p))"

definition name :: "path \<Rightarrow> string" where
  "name p = (if path_parts p = [] then [] else last (path_parts p))"

definition stem :: "path \<Rightarrow> string" where
  "stem p =
     (let n = name p in
      case rfind n CHR ''.'' of
        None \<Rightarrow> n
      | Some i \<Rightarrow> if 0 < i \<and> i < length n - 1 then take i n else n)"

definition parent :: "path \<Rightarrow> path" where
  "parent p = (if path_parts p = [] then p else Path (path_root p) (butlast (path_parts p)))"

text \<open>\<^verbatim>\<open>p / s\<close> with a string on the right: an absolute right operand replaces \<open>p\<close>.\<close>

definition joinpath :: "path \<Rightarrow> string \<Rightarrow> path" where
  "joinpath p s =
     (let q = parse_path s in
      if path_root q \<noteq> [] then q else Path (path_root p) (path_parts p @ path_parts q))"

subsection \<open>Child processes and callbacks\<close>

text \<open>
  What a method does to the outside world, in the order it does it: the calls on a
  \<^verbatim>\<open>Popen\<close> object (identified by its process identifier) and the calls of the
  status callback. A call that raises is recorded as well: it was attempted.
  \<open>Wait pid (Some t)\<close> is \<^verbatim>\<open>wait(timeout=t)\<close>, \<open>Wait pid None\<close> is \<^verbatim>\<open>wait()\<close>.
\<close>

datatype signal = SIGSTOP | SIGCONT

datatype effect =
    Popen "string list"
  | StdinWrite nat string
  | StdinFlush nat
  | Wait nat "nat option"
  | Terminate nat
  | SendSignal nat signal
  | StatusCallback string

section \<open>The media encoder (modules/encoder.py)\<close>

text \<open>
  The attributes of \<^verbatim>\<open>MediaEncoder\<close> that the modelled methods read or write. The
  widgets are represented by the value their \<^verbatim>\<open>get()\<close> returns or by the option last
  set with \<^verbatim>\<open>configure\<close>; \<open>current_process\<close> holds the process identifier of the
  \<^verbatim>\<open>Popen\<close> object.
\<close>

record encoder =
  input_files :: "path list"
  output_dir :: "path option"
  is_encoding :: bool
  current_process :: "nat option"
  resolution_dropdown :: string
  preset_slider :: rat
  video_bitrate :: string
  fps_dropdown :: string
  audio_codec :: string
  audio_bitrate :: string
  sample_rate :: string
  progress_bar :: rat
  progress_label :: string
  progress_label_color :: string
  start_btn :: string
  cancel_btn :: string
  has_app :: bool
  status_bar_message :: string

text \<open>
  The values the settings widgets offer (\<^verbatim>\<open>_create_settings_section\<close>) and the state
  \<^verbatim>\<open>__init__\<close> leaves the encoder in when the application creates it (with \<open>app\<close> set):
  each combo box shows its first value, the audio bitrate is set to \<open>192k\<close> and the
  preset slider to 4.
\<close>

definition resolution_values :: "string list" where
  "resolution_values = [''Original'', ''3840x2160 (4K)'', ''1920x1080 (1080p)'',
     ''1280x720 (720p)'', ''854x480 (480p)'', ''Custom'']"

definition fps_values :: "string list" where
  "fps_values = [''Original'', ''60'', ''30'', ''24'', ''15'']"

definition audio_codec_values :: "string list" where
  "audio_codec_values = [''AAC'', ''MP3'', ''FLAC'', ''Opus'', ''Copy'']"

definition audio_bitrate_values :: "string list" where
  "audio_bitrate_values = [''320k'', ''256k'', ''192k'', ''128k'', ''96k'']"

definition initial_encoder :: encoder where
  "initial_encoder =
     \<lparr>input_files = [], output_dir = None, is_encoding = False, current_process = None,
      resolution_dropdown = ''Original'', preset_slider = 4, video_bitrate = [],
      fps_dropdown = ''Original'', audio_codec = ''AAC'', audio_bitrate = ''192k'',
      sample_rate = ''Original'', progress_bar = 0, progress_label = ''Ready to encode'',
      progress_label_color = ''text_dim'', start_btn = ''normal'', cancel_btn = ''disabled'',
      has_app = True, status_bar_message = []\<rparr>"

text \<open>
  \<^verbatim>\<open>_build_ffmpeg_command\<close> of the encoder. The output path is computed first, then
  the arguments of the category; an \<^verbatim>\<open>IndexError\<close> of \<^verbatim>\<open>res.split()[0]\<close> or of
  \<^verbatim>\<open>presets[...]\<close> leaves the method.
\<close>

definition ext_map :: "(string \<times> string) list" where
  "ext_map =
     [(''MP4 (H.264)'', ''.mp4''), (''MKV (H.264)'', ''.mkv''), (''WebM (VP9)'', ''.webm''),
      (''AVI'', ''.avi''), (''MOV'', ''.mov''), (''GIF'', ''.gif''), (''MP3'', ''.mp3''),
      (''AAC (M4A)'', ''.m4a''), (''FLAC'', ''.flac''), (''WAV'', ''.wav''),
      (''OGG (Vorbis)'', ''.ogg''), (''Opus'', ''.opus''), (''PNG'', ''.png''),
      (''JPEG'', ''.jpg''), (''WebP'', ''.webp''), (''BMP'', ''.bmp''), (''TIFF'', ''.tiff'')]"

definition presets :: "string list" where
  "presets = [''ultrafast'', ''superfast'', ''veryfast'', ''faster'', ''fast'', ''medium'',
              ''slow'', ''slower'', ''veryslow'']"

definition output_path :: "encoder \<Rightarrow> path \<Rightarrow> string \<Rightarrow> path" where
  "output_path self input_file format_name =
     (let ext = (case map_of ext_map format_name of Some e \<Rightarrow> e | None \<Rightarrow> ''.mp4'');
          fname = stem input_file @ ''_converted'' @ ext
      in case output_dir self of
           Some d \<Rightarrow> joinpath d fname
         | None \<Rightarrow> joinpath (parent input_file) fname)"

definition resolution_args :: "string \<Rightarrow> py_error + string list" where
  "resolution_args res =
     (if res \<noteq> ''Original'' \<and> res \<noteq> ''Custom''
      then (case py_index (split res) 0 of
              Inl e \<Rightarrow> Inl e
            | Inr res_value \<Rightarrow> Inr [''-s'', res_value])
      else Inr [])"

definition video_args :: "encoder \<Rightarrow> string \<Rightarrow> py_error + string list" where
  "video_args self format_name =
     (case resolution_args (resolution_dropdown self) of
        Inl e \<Rightarrow> Inl e
      | Inr res_args \<Rightarrow>
          (let codec_args =
                 (if contains format_name ''H.264'' then [''-c:v'', ''libx264'']
                  else if contains format_name ''VP9'' then [''-c:v'', ''libvpx-vp9'']
                  else [])
           in case py_index presets (py_int (preset_slider self)) of
                Inl e \<Rightarrow> Inl e
              | Inr preset \<Rightarrow>
                  (let vbr = video_bitrate self;
                       vbr_args = (if vbr \<noteq> [] then [''-b:v'', vbr @ ''k''] else []);
                       fps = fps_dropdown self;
                       fps_args = (if fps \<noteq> ''Original'' then [''-r'', fps] else []);
                       acodec = audio_codec self;
                       acodec_args =
                         (if acodec = ''AAC'' then [''-c:a'', ''aac'']
                          else if acodec = ''MP3'' then [''-c:a'', ''libmp3lame'']
                          else if acodec = ''Copy'' then [''-c:a'', ''copy'']
                          else []);
                       abr = audio_bitrate self
                   in Inr (res_args @ codec_args @ [''-preset'', preset] @ vbr_args @ fps_args
                           @ acodec_args @ [''-b:a'', abr]))))"

definition audio_args :: "encoder \<Rightarrow> string \<Rightarrow> string list" where
  "audio_args self format_name =
     (let codec_args =
            (if contains format_name ''MP3'' then [''-c:a'', ''libmp3lame'']
             else if contains format_name ''AAC'' then [''-c:a'', ''aac'']
             else if contains format_name ''FLAC'' then [''-c:a'', ''flac'']
             else if contains format_name ''Opus'' then [''-c:a'', ''libopus'']
             else []);
          abr = audio_bitrate self;
          sr = sample_rate self
      in [''-vn''] @ codec_args @ [''-b:a'', abr]
         @ (if sr \<noteq> ''Original'' then [''-ar'', sr] else []))"

definition build_ffmpeg_command :: "encoder \<Rightarrow> path \<Rightarrow> string \<Rightarrow> string \<Rightarrow> py_error + string list"
  where
  "build_ffmpeg_command self input_file category format_name =
     (let output = output_path self input_file format_name;
          cmd = [''ffmpeg'', ''-i'', str_path input_file, ''-y'']
      in case (if category = ''Video'' then video_args self format_name
               else if category = ''Audio'' then Inr (audio_args self format_name)
               else Inr []) of
           Inl e \<Rightarrow> Inl e
         | Inr args \<Rightarrow> Inr (cmd @ args @ [str_path output]))"


text \<open>
  The methods the Tk main loop runs: \<^verbatim>\<open>_update_progress\<close>, \<^verbatim>\<open>_encode_error\<close>,
  \<^verbatim>\<open>_encode_complete\<close>, \<^verbatim>\<open>cancel_encode\<close> and \<^verbatim>\<open>start_encode\<close> (which then starts
  the worker thread).
\<close>

definition update_progress :: "rat \<Rightarrow> string \<Rightarrow> encoder \<Rightarrow> encoder" where
  "update_progress progress message self =
     self\<lparr>progress_bar := progress, progress_label := message\<rparr>"

definition encode_error :: "string \<Rightarrow> encoder \<Rightarrow> encoder" where
  "encode_error error self =
     self\<lparr>progress_label := ''Error: '' @ error, progress_label_color := ''red'',
          is_encoding := False, start_btn := ''normal'', cancel_btn := ''disabled''\<rparr>"

definition encode_complete :: "encoder \<Rightarrow> encoder" where
  "encode_complete self =
     (let self1 = self\<lparr>progress_bar := 1, progress_label := ''Encoding complete!'',
                        progress_label_color := ''success'', is_encoding := False,
                        start_btn := ''normal'', cancel_btn := ''disabled''\<rparr>
      in if has_app self then self1\<lparr>status_bar_message := ''Encoding complete!''\<rparr> else self1)"


definition start_encode :: "encoder \<Rightarrow> encoder" where
  "start_encode self =
     (if input_files self = []
      then (if has_app self then self\<lparr>status_bar_message := ''No input files''\<rparr> else self)
      else self\<lparr>is_encoding := True, start_btn := ''disabled'', cancel_btn := ''normal''\<rparr>)"

text \<open>
  The worker thread \<^verbatim>\<open>_encode_files\<close> and the main loop share the encoder object. The
  worker hands work to the main loop with \<^verbatim>\<open>self.after(0, ...)\<close>: the callback is
  queued and runs later, in order. \<open>pending\<close> is that queue, \<open>effects\<close> what the worker
  did to child processes, \<open>worker_error\<close> the exception that ended the thread, if any.
\<close>

datatype callback = UpdateProgress rat string | EncodeError string | EncodeComplete

fun run_callback :: "encoder \<Rightarrow> callback \<Rightarrow> encoder" where
  "run_callback self (UpdateProgress p m) = update_progress p m self"
| "run_callback self (EncodeError e) = encode_error e self"
| "run_callback self EncodeComplete = encode_complete self"

record world =
  gui :: encoder
  pending :: "callback list"
  effects :: "effect list"
  tick :: nat
  worker_error :: "py_error option"


text \<open>
  Each time the worker reads \<^verbatim>\<open>self.is_encoding\<close> the main loop has run some of the
  queued callbacks. The schedule \<open>sched\<close> says how many, at the \<open>k\<close>-th read.
\<close>

definition sync :: "(nat \<Rightarrow> nat) \<Rightarrow> world \<Rightarrow> world" where
  "sync sched w =
     w\<lparr>gui := foldl run_callback (gui w) (take (sched (tick w)) (pending w)),
       pending := drop (sched (tick w)) (pending w),
       tick := tick w + 1\<rparr>"


text \<open>
  The loop over the lines of the diagnostic stream. The branch for a line with the
  marker \<open>time=\<close> is \<^verbatim>\<open>pass\<close> in the source.
\<close>

fun monitor :: "(nat \<Rightarrow> nat) \<Rightarrow> nat \<Rightarrow> string list \<Rightarrow> world \<Rightarrow> world" where
  "monitor sched pid [] w = w"
| "monitor sched pid (line # rest) w =
     (let w1 = sync sched w in
      if \<not> is_encoding (gui w1) then w1\<lparr>effects := effects w1 @ [Terminate pid]\<rparr>
      else (let w2 = (if contains line ''time='' then w1 else w1)
            in monitor sched pid rest w2))"




text \<open>The commands a list of effects started, in order.\<close>

fun launched :: "effect list \<Rightarrow> string list list" where
  "launched [] = []"
| "launched (Popen cmd # es) = cmd # launched es"
| "launched (e # es) = launched es"









definition idle_schedule :: "nat \<Rightarrow> nat" where
  "idle_schedule k = 0"

definition clip_encoder :: encoder where
  "clip_encoder = (start_encode (initial_encoder\<lparr>input_files := [Path [] [''clip.mov'']]\<rparr>))
      \<lparr>current_process := Some 4242\<rparr>"

definition clip_world :: world where
  "clip_world = \<lparr>gui = clip_encoder, pending = [], effects = [], tick = 0, worker_error = None\<rparr>"

section \<open>The screen recorder (modules/screen_recorder.py)\<close>

text \<open>
  Button and label texts of the source that are not ASCII, as their UTF-8 bytes:
  the red circle U+1F534, the pause sign U+23F8, the play triangle U+25B6 and the
  record sign U+23FA.
\<close>

definition red_circle :: string where
  "red_circle = [char_of (0xF0 :: nat), char_of (0x9F :: nat), char_of (0x94 :: nat), char_of (0xB4 :: nat)]"

definition pause_sign :: string where
  "pause_sign = [char_of (0xE2 :: nat), char_of (0x8F :: nat), char_of (0xB8 :: nat)]"

definition play_sign :: string where
  "play_sign = [char_of (0xE2 :: nat), char_of (0x96 :: nat), char_of (0xB6 :: nat)]"

definition record_sign :: string where
  "record_sign = [char_of (0xE2 :: nat), char_of (0x8F :: nat), char_of (0xBA :: nat)]"

record quality =
  crf :: int
  preset :: string
  label :: string

definition QUALITY_PRESETS :: "(string \<times> quality) list" where
  "QUALITY_PRESETS =
     [(''low'', \<lparr>crf = 28, preset = ''ultrafast'', label = ''Low (Fast)''\<rparr>),
      (''medium'', \<lparr>crf = 23, preset = ''fast'', label = ''Medium''\<rparr>),
      (''high'', \<lparr>crf = 18, preset = ''medium'', label = ''High''\<rparr>),
      (''lossless'', \<lparr>crf = 0, preset = ''slow'', label = ''Lossless''\<rparr>)]"

text \<open>
  The attributes of \<^verbatim>\<open>ScreenRecorder\<close>. \<open>recording_process\<close> holds the process
  identifier of the \<^verbatim>\<open>Popen\<close> object, \<open>recordings\<close> the file names shown in the
  list of recent recordings, \<open>rec_output_dir\<close> is the attribute \<^verbatim>\<open>output_dir\<close>.
\<close>

record recorder =
  is_recording :: bool
  is_paused :: bool
  recording_process :: "nat option"
  record_start_time :: "rat option"
  current_output_file :: "path option"
  rec_output_dir :: path
  current_preset :: string
  format_var :: string
  quality_var :: string
  fps_var :: string
  has_status_callback :: bool
  record_btn_color :: string
  pause_btn_state :: string
  pause_btn_text :: string
  stop_btn_state :: string
  status_label :: string
  timer_label :: string
  recordings :: "string list"

text \<open>
  \<^verbatim>\<open>_build_ffmpeg_command\<close> of the recorder. \<open>display\<close> is the value of the
  environment variable \<^verbatim>\<open>DISPLAY\<close>, \<open>None\<close> when it is unset. \<^verbatim>\<open>str(None)\<close> is
  the string \<open>None\<close>, so the method does not raise when no output file is set.
\<close>

definition recorder_build_ffmpeg_command ::
  "recorder \<Rightarrow> string option \<Rightarrow> quality \<Rightarrow> int \<Rightarrow> string list" where
  "recorder_build_ffmpeg_command self display quality fps =
     (let p = current_preset self in
      [''ffmpeg'', ''-y'']
      @ (if p \<in> set [''screen_only'', ''screen_audio'', ''screen_mic'', ''screen_all'']
         then [''-f'', ''x11grab'', ''-framerate'', str_int fps,
               ''-i'', (case display of Some d \<Rightarrow> d | None \<Rightarrow> '':0'')]
         else [])
      @ (if p \<in> set [''screen_audio'', ''screen_all'']
         then [''-f'', ''pulse'', ''-i'', ''default''] else [])
      @ (if p \<in> set [''screen_mic'', ''screen_all'']
         then [''-f'', ''pulse'', ''-i'', ''default''] else [])
      @ (if p \<in> set [''webcam'', ''webcam_screen'']
         then [''-f'', ''v4l2'', ''-framerate'', str_int fps, ''-i'', ''/dev/video0'']
         else [])
      @ [''-c:v'', ''libx264'', ''-preset'', preset quality, ''-crf'', str_int (crf quality),
         ''-pix_fmt'', ''yuv420p'']
      @ (if p \<notin> set [''screen_only'', ''webcam'']
         then [''-c:a'', ''aac'', ''-b:a'', ''128k''] else [])
      @ [(case current_output_file self of Some f \<Rightarrow> str_path f | None \<Rightarrow> ''None'')])"

text \<open>
  \<^verbatim>\<open>_refresh_recordings_list\<close>. The directory is the list of its entries, each a
  file name with its \<^verbatim>\<open>st_mtime\<close> (compared only, so an integer stands for the
  float), in the order \<^verbatim>\<open>glob\<close> yields them. \<^verbatim>\<open>sorted(..., reverse=True)\<close> is
  stable: entries with equal keys keep their order.
\<close>

type_synonym dir_entry = "string \<times> int"

definition glob_mp4 :: "dir_entry list \<Rightarrow> dir_entry list" where
  "glob_mp4 dir = filter (\<lambda>e. endswith (fst e) ''.mp4'') dir"

definition refresh_recordings_list :: "dir_entry list \<Rightarrow> recorder \<Rightarrow> recorder" where
  "refresh_recordings_list dir self =
     self\<lparr>recordings := map fst (take 10 (sort_key (\<lambda>e. - snd e) (glob_mp4 dir)))\<rparr>"

text \<open>\<^verbatim>\<open>_toggle_pause\<close>.\<close>

definition toggle_pause :: "recorder \<Rightarrow> recorder \<times> effect list" where
  "toggle_pause self =
     (case recording_process self of
        None \<Rightarrow> (self, [])
      | Some pid \<Rightarrow>
          if is_paused self
          then (self\<lparr>is_paused := False, pause_btn_text := pause_sign,
                      status_label := red_circle @ '' Recording...''\<rparr>,
                [SendSignal pid SIGCONT])
          else (self\<lparr>is_paused := True, pause_btn_text := play_sign,
                      status_label := pause_sign @ '' Paused''\<rparr>,
                [SendSignal pid SIGSTOP]))"

text \<open>
  What the recording process does while \<^verbatim>\<open>_stop_recording\<close> is in its
  \<^verbatim>\<open>try\<close> block: writing the quit byte raises, flushing it raises (a broken pipe,
  when the process has exited already), the wait of five seconds raises
  \<^verbatim>\<open>TimeoutExpired\<close>, or the process exits in time. The bare \<^verbatim>\<open>except\<close> catches
  the first three.
\<close>

datatype quit_outcome = WriteRaises | FlushRaises | WaitTimesOut | ExitsInTime

definition stop_process :: "quit_outcome \<Rightarrow> nat \<Rightarrow> effect list" where
  "stop_process q pid =
     (case q of
        WriteRaises \<Rightarrow> [StdinWrite pid ''q'', Terminate pid]
      | FlushRaises \<Rightarrow> [StdinWrite pid ''q'', StdinFlush pid, Terminate pid]
      | WaitTimesOut \<Rightarrow> [StdinWrite pid ''q'', StdinFlush pid, Wait pid (Some 5), Terminate pid]
      | ExitsInTime \<Rightarrow> [StdinWrite pid ''q'', StdinFlush pid, Wait pid (Some 5)])"

text \<open>
  \<^verbatim>\<open>_stop_recording\<close>. The result is the recorder after the call, the effects, and
  the exception that left the method, if any: with a status callback and no output
  file, \<^verbatim>\<open>self.current_output_file.name\<close> raises after the attributes were reset.
\<close>

definition stop_recording ::
  "quit_outcome \<Rightarrow> dir_entry list \<Rightarrow> recorder \<Rightarrow> recorder \<times> effect list \<times> py_error option" where
  "stop_recording q dir self =
     (let effs = (case recording_process self of Some pid \<Rightarrow> stop_process q pid | None \<Rightarrow> []);
          self1 = self\<lparr>recording_process := None, is_recording := False, is_paused := False,
                       record_start_time := None, record_btn_color := ''#ff3366'',
                       pause_btn_state := ''disabled'', pause_btn_text := pause_sign,
                       stop_btn_state := ''disabled'', status_label := ''Recording saved!'',
                       timer_label := ''00:00:00''\<rparr>;
          self2 = refresh_recordings_list dir self1
      in if has_status_callback self
         then (case current_output_file self of
                 None \<Rightarrow> (self2, effs, Some AttributeError)
               | Some f \<Rightarrow> (self2, effs @ [StatusCallback (''Saved: '' @ name f)], None))
         else (self2, effs, None))"

text \<open>
  \<^verbatim>\<open>_begin_capture\<close>. \<open>timestamp\<close> is the formatted clock, \<open>display\<close> the environment
  variable, \<open>spawn\<close> what \<^verbatim>\<open>Popen\<close> does (it raises with a message or returns a
  process with this identifier), \<open>now\<close> is \<^verbatim>\<open>time.time()\<close>. The lookup of the quality
  by its label raises \<^verbatim>\<open>StopIteration\<close> when no preset has the label, \<^verbatim>\<open>int\<close> raises
  \<^verbatim>\<open>ValueError\<close>; an exception of \<^verbatim>\<open>Popen\<close> is caught and shown.
\<close>

definition begin_capture ::
  "string \<Rightarrow> string option \<Rightarrow> string + nat \<Rightarrow> rat \<Rightarrow> recorder
   \<Rightarrow> recorder \<times> effect list \<times> py_error option" where
  "begin_capture timestamp display spawn now self =
     (let ext = format_var self;
          out = joinpath (rec_output_dir self) (''recording_'' @ timestamp @ ''.'' @ ext);
          self1 = self\<lparr>current_output_file := Some out\<rparr>
      in case find (\<lambda>kv. label (snd kv) = quality_var self) QUALITY_PRESETS of
           None \<Rightarrow> (self1, [], Some StopIteration)
         | Some kv \<Rightarrow>
             (case int_of_string (fps_var self) of
                Inl e \<Rightarrow> (self1, [], Some e)
              | Inr fps \<Rightarrow>
                  (let cmd = recorder_build_ffmpeg_command self1 display (snd kv) fps in
                   case spawn of
                     Inl e \<Rightarrow>
                       (self1\<lparr>status_label := ''Error: '' @ take 30 e\<rparr>, [Popen cmd], None)
                   | Inr pid \<Rightarrow>
                       (self1\<lparr>recording_process := Some pid, is_recording := True,
                               is_paused := False, record_start_time := Some now,
                               record_btn_color := ''#00ff88'', pause_btn_state := ''normal'',
                               stop_btn_state := ''normal'',
                               status_label := red_circle @ '' Recording...''\<rparr>,
                        [Popen cmd]
                        @ (if has_status_callback self
                           then [StatusCallback (''Recording to '' @ name out)] else []),
                        None))))"

text \<open>
  The recorder as \<^verbatim>\<open>__init__\<close> leaves it when it is given a status callback and its
  output directory \<open>dir\<close> holds no recording yet.
\<close>

definition initial_recorder :: "path \<Rightarrow> recorder" where
  "initial_recorder dir =
     \<lparr>is_recording = False, is_paused = False, recording_process = None,
      record_start_time = None, current_output_file = None, rec_output_dir = dir,
      current_preset = ''screen_audio'', format_var = ''mp4'', quality_var = ''Medium'',
      fps_var = ''30'', has_status_callback = True, record_btn_color = ''#ff3366'',
      pause_btn_state = ''disabled'', pause_btn_text = pause_sign,
      stop_btn_state = ''disabled'', status_label = ''Ready to Record'',
      timer_label = ''00:00:00'', recordings = []\<rparr>"

text \<open>
  Concrete sessions used as examples: a recorder that has started the process 4242,
  with the default format \<open>mp4\<close> and with the format \<open>mkv\<close>.
\<close>

definition videos :: path where
  "videos = Path ''/'' [''home'', ''u'', ''Videos'', ''N01D-Recordings'']"

definition running_recorder :: recorder where
  "running_recorder = fst (begin_capture ''20240101_120000'' (Some '':0'') (Inr 4242) 1704110400
      (initial_recorder videos))"

definition mkv_recorder :: recorder where
  "mkv_recorder = fst (begin_capture ''20240101_120000'' (Some '':0'') (Inr 4242) 1704110400
      ((initial_recorder videos)\<lparr>format_var := ''mkv''\<rparr>))"

section \<open>Properties\<close>

subsection \<open>Evaluation of the builders on the values the widgets offer\<close>

lemma clip_mov_path: "parse_path ''clip.mov'' = Path [] [''clip.mov'']"
  by (simp add: parse_path_def parse_root_def)

lemma str_clip_mov: "str_path (Path [] [''clip.mov'']) = ''clip.mov''"
  by (simp add: str_path_def)

lemma stem_clip: "stem (Path [] [''clip.mov'']) = ''clip''"
  by (simp add: stem_def name_def rfind_def)

lemma parse_converted: "parse_path ''clip_converted.mp4'' = Path [] [''clip_converted.mp4'']"
  by (simp add: parse_path_def parse_root_def)

lemma ext_mp4: "map_of ext_map ''MP4 (H.264)'' = Some ''.mp4''"
  by (simp add: ext_map_def)

lemma clip_mov_output:
  "output_dir self = None \<Longrightarrow>
   str_path (output_path self (Path [] [''clip.mov'']) ''MP4 (H.264)'') = ''clip_converted.mp4''"
  by (simp add: output_path_def ext_mp4 stem_clip parent_def joinpath_def parse_converted str_path_def)

lemma split_4k: "split ''3840x2160 (4K)'' = [''3840x2160'', ''(4K)'']"
  by code_simp

lemma split_1080: "split ''1920x1080 (1080p)'' = [''1920x1080'', ''(1080p)'']"
  by code_simp

lemma split_720: "split ''1280x720 (720p)'' = [''1280x720'', ''(720p)'']"
  by code_simp

lemma split_480: "split ''854x480 (480p)'' = [''854x480'', ''(480p)'']"
  by code_simp

lemma resolution_cases:
  assumes "res \<in> set resolution_values"
  shows "res = ''Original'' \<or> res = ''3840x2160 (4K)'' \<or> res = ''1920x1080 (1080p)''
    \<or> res = ''1280x720 (720p)'' \<or> res = ''854x480 (480p)'' \<or> res = ''Custom''"
  using assms by (simp add: resolution_values_def)

lemma res_original: "resolution_args ''Original'' = Inr []"
  by (simp add: resolution_args_def)

lemma res_custom: "resolution_args ''Custom'' = Inr []"
  by (simp add: resolution_args_def)

lemma res_4k: "resolution_args ''3840x2160 (4K)'' = Inr [''-s'', ''3840x2160'']"
  by (simp add: resolution_args_def split_4k py_index_def)

lemma res_1080: "resolution_args ''1920x1080 (1080p)'' = Inr [''-s'', ''1920x1080'']"
  by (simp add: resolution_args_def split_1080 py_index_def)

lemma res_720: "resolution_args ''1280x720 (720p)'' = Inr [''-s'', ''1280x720'']"
  by (simp add: resolution_args_def split_720 py_index_def)

lemma res_480: "resolution_args ''854x480 (480p)'' = Inr [''-s'', ''854x480'']"
  by (simp add: resolution_args_def split_480 py_index_def)

lemma res_args_ok:
  assumes "res \<in> set resolution_values"
  shows "\<exists>ra. resolution_args res = Inr ra \<and> ''-b:v'' \<notin> set ra"
  using resolution_cases [OF assms]
  by (elim disjE) (simp_all add: res_original res_custom res_4k res_1080 res_720 res_480)

lemma medium_preset: "py_index presets (py_int 5) = Inr ''medium''"
  by (simp add: py_index_def py_int_def presets_def)

lemma h264_in_mp4: "contains ''MP4 (H.264)'' ''H.264''"
  by code_simp

subsection \<open>The builders read the settings only\<close>

lemma build_ffmpeg_command_settings:
  assumes "output_dir a = output_dir b"
    and "resolution_dropdown a = resolution_dropdown b"
    and "preset_slider a = preset_slider b"
    and "video_bitrate a = video_bitrate b"
    and "fps_dropdown a = fps_dropdown b"
    and "audio_codec a = audio_codec b"
    and "audio_bitrate a = audio_bitrate b"
    and "sample_rate a = sample_rate b"
  shows "build_ffmpeg_command a input_file category format_name
       = build_ffmpeg_command b input_file category format_name"
proof -
  have "output_path a input_file format_name = output_path b input_file format_name"
    unfolding output_path_def assms(1) ..
  moreover have "video_args a format_name = video_args b format_name"
    unfolding video_args_def assms ..
  moreover have "audio_args a format_name = audio_args b format_name"
    unfolding audio_args_def assms ..
  ultimately show ?thesis
    unfolding build_ffmpeg_command_def by simp
qed

lemma recorder_command_settings:
  assumes "current_preset a = current_preset b"
    and "current_output_file a = current_output_file b"
  shows "recorder_build_ffmpeg_command a display quality fps
       = recorder_build_ffmpeg_command b display quality fps"
  unfolding recorder_build_ffmpeg_command_def assms ..

lemma encoder_command_prefix:
  assumes "build_ffmpeg_command self input_file category format_name = Inr cmd"
  shows "take 4 cmd = [''ffmpeg'', ''-i'', str_path input_file, ''-y'']"
  using assms
  by (auto simp: build_ffmpeg_command_def Let_def split: if_splits sum.splits)

lemma recorder_command_prefix:
  "take 2 (recorder_build_ffmpeg_command self display quality fps) = [''ffmpeg'', ''-y'']"
  by (simp add: recorder_build_ffmpeg_command_def Let_def)

lemma initial_clip_command:
  "build_ffmpeg_command initial_encoder (parse_path ''clip.mov'') ''Video'' ''MP4 (H.264)''
     = Inr [''ffmpeg'', ''-i'', ''clip.mov'', ''-y'', ''-c:v'', ''libx264'', ''-preset'', ''fast'',
            ''-c:a'', ''aac'', ''-b:a'', ''192k'', ''clip_converted.mp4'']"
  by code_simp

subsection \<open>The command for one video file\<close>

text \<open>
  Claim C1. For the input \<open>clip.mov\<close>, the category Video, the format MP4 (H.264), the
  preset slider on \<open>medium\<close> (position 5), an empty video bitrate entry and no output
  directory, whatever the resolution, frame rate, audio codec and audio bitrate
  chosen among the values the widgets offer, the encoder builds a command that
  starts with \<open>ffmpeg -i clip.mov -y\<close>, contains \<open>-c:v libx264 -preset medium\<close>, contains
  no video bitrate flag \<open>-b:v\<close>, and ends with the output path \<open>clip_converted.mp4\<close>
  beside the input. (The audio bitrate of the muxed stream, \<open>-b:a\<close>, is a separate
  setting that has no empty value; the command always carries it.)
\<close>

theorem clip_mov_h264_medium_command:
  assumes "output_dir self = None" and "preset_slider self = 5" and "video_bitrate self = []"
    and "resolution_dropdown self \<in> set resolution_values"
    and "fps_dropdown self \<in> set fps_values"
    and "audio_codec self \<in> set audio_codec_values"
    and "audio_bitrate self \<in> set audio_bitrate_values"
  shows "\<exists>cmd pre post.
           build_ffmpeg_command self (parse_path ''clip.mov'') ''Video'' ''MP4 (H.264)'' = Inr cmd
         \<and> take 4 cmd = [''ffmpeg'', ''-i'', ''clip.mov'', ''-y'']
         \<and> cmd = pre @ [''-c:v'', ''libx264'', ''-preset'', ''medium''] @ post
         \<and> ''-b:v'' \<notin> set cmd
         \<and> last cmd = ''clip_converted.mp4''"
proof -
  from res_args_ok [OF assms(4)] obtain ra where
    ra: "resolution_args (resolution_dropdown self) = Inr ra" and nb: "''-b:v'' \<notin> set ra"
    by blast
  define fa where "fa = (if fps_dropdown self \<noteq> ''Original'' then [''-r'', fps_dropdown self] else [])"
  define ca where "ca = (if audio_codec self = ''AAC'' then [''-c:a'', ''aac'']
                          else if audio_codec self = ''MP3'' then [''-c:a'', ''libmp3lame'']
                          else if audio_codec self = ''Copy'' then [''-c:a'', ''copy'']
                          else [])"
  have fa: "''-b:v'' \<notin> set fa"
    using assms(5) by (simp add: fa_def fps_values_def) (elim disjE, simp_all)
  have ca: "''-b:v'' \<notin> set ca"
    by (simp add: ca_def)
  have ab: "audio_bitrate self \<noteq> ''-b:v''"
    using assms(7) by (simp add: audio_bitrate_values_def) (elim disjE, simp_all)
  have v: "video_args self ''MP4 (H.264)''
      = Inr (ra @ [''-c:v'', ''libx264'', ''-preset'', ''medium''] @ fa @ ca
             @ [''-b:a'', audio_bitrate self])"
    unfolding video_args_def Let_def ra
    by (simp add: assms(2,3) medium_preset h264_in_mp4 fa_def ca_def)
  let ?cmd = "[''ffmpeg'', ''-i'', ''clip.mov'', ''-y''] @ ra
      @ [''-c:v'', ''libx264'', ''-preset'', ''medium'']
      @ fa @ ca @ [''-b:a'', audio_bitrate self, ''clip_converted.mp4'']"
  have b: "build_ffmpeg_command self (parse_path ''clip.mov'') ''Video'' ''MP4 (H.264)'' = Inr ?cmd"
    unfolding build_ffmpeg_command_def Let_def clip_mov_path
    by (simp add: v clip_mov_output [OF assms(1)] str_clip_mov)
  have "?cmd = ([''ffmpeg'', ''-i'', ''clip.mov'', ''-y''] @ ra)
      @ [''-c:v'', ''libx264'', ''-preset'', ''medium'']
      @ (fa @ ca @ [''-b:a'', audio_bitrate self, ''clip_converted.mp4''])"
    by simp
  moreover have "''-b:v'' \<notin> set ?cmd"
    using nb fa ca ab by simp
  moreover have "take 4 ?cmd = [''ffmpeg'', ''-i'', ''clip.mov'', ''-y'']" by simp
  moreover have "last ?cmd = ''clip_converted.mp4''" by simp
  ultimately show ?thesis using b by blast
qed

theorem clip_mov_h264_medium_command_witness:
  "output_dir (initial_encoder\<lparr>preset_slider := 5\<rparr>) = None
   \<and> preset_slider (initial_encoder\<lparr>preset_slider := 5\<rparr>) = 5
   \<and> video_bitrate (initial_encoder\<lparr>preset_slider := 5\<rparr>) = []
   \<and> resolution_dropdown (initial_encoder\<lparr>preset_slider := 5\<rparr>) \<in> set resolution_values
   \<and> fps_dropdown (initial_encoder\<lparr>preset_slider := 5\<rparr>) \<in> set fps_values
   \<and> audio_codec (initial_encoder\<lparr>preset_slider := 5\<rparr>) \<in> set audio_codec_values
   \<and> audio_bitrate (initial_encoder\<lparr>preset_slider := 5\<rparr>) \<in> set audio_bitrate_values
   \<and> (\<exists>cmd pre post.
           build_ffmpeg_command (initial_encoder\<lparr>preset_slider := 5\<rparr>) (parse_path ''clip.mov'')
             ''Video'' ''MP4 (H.264)'' = Inr cmd
         \<and> take 4 cmd = [''ffmpeg'', ''-i'', ''clip.mov'', ''-y'']
         \<and> cmd = pre @ [''-c:v'', ''libx264'', ''-preset'', ''medium''] @ post
         \<and> ''-b:v'' \<notin> set cmd
         \<and> last cmd = ''clip_converted.mp4'')"
proof -
  let ?e = "initial_encoder\<lparr>preset_slider := 5\<rparr>"
  have h1: "output_dir ?e = None" by (simp add: initial_encoder_def)
  have h2: "preset_slider ?e = 5" by simp
  have h3: "video_bitrate ?e = []" by (simp add: initial_encoder_def)
  have h4: "resolution_dropdown ?e \<in> set resolution_values"
    by (simp add: initial_encoder_def resolution_values_def)
  have h5: "fps_dropdown ?e \<in> set fps_values"
    by (simp add: initial_encoder_def fps_values_def)
  have h6: "audio_codec ?e \<in> set audio_codec_values"
    by (simp add: initial_encoder_def audio_codec_values_def)
  have h7: "audio_bitrate ?e \<in> set audio_bitrate_values"
    by (simp add: initial_encoder_def audio_bitrate_values_def)
  from clip_mov_h264_medium_command [OF h1 h2 h3 h4 h5 h6 h7] h1 h2 h3 h4 h5 h6 h7
  show ?thesis by blast
qed

subsection \<open>The overwrite flag\<close>

text \<open>
  Claim C4, as the code has it. Both builders put the literal \<open>-y\<close> into every command:
  the encoder as the fourth argument, after \<open>ffmpeg -i input\<close>, the recorder as the
  second. No setting of either class asks for overwriting or forbids it, so a command
  that is built always tells the tool to overwrite an existing output file.
\<close>

theorem overwrite_flag_always_passed:
  "(build_ffmpeg_command self input_file category format_name = Inr cmd
      \<longrightarrow> take 4 cmd = [''ffmpeg'', ''-i'', str_path input_file, ''-y''])
   \<and> take 2 (recorder_build_ffmpeg_command r display quality fps) = [''ffmpeg'', ''-y'']"
  using encoder_command_prefix recorder_command_prefix by blast

theorem overwrite_flag_always_passed_witness:
  "build_ffmpeg_command initial_encoder (parse_path ''clip.mov'') ''Video'' ''MP4 (H.264)''
     = Inr [''ffmpeg'', ''-i'', ''clip.mov'', ''-y'', ''-c:v'', ''libx264'', ''-preset'', ''fast'',
            ''-c:a'', ''aac'', ''-b:a'', ''192k'', ''clip_converted.mp4'']
   \<and> take 4 [''ffmpeg'', ''-i'', ''clip.mov'', ''-y'', ''-c:v'', ''libx264'', ''-preset'', ''fast'',
            ''-c:a'', ''aac'', ''-b:a'', ''192k'', ''clip_converted.mp4'']
     = [''ffmpeg'', ''-i'', str_path (parse_path ''clip.mov''), ''-y'']"
  using overwrite_flag_always_passed
    [of initial_encoder "parse_path ''clip.mov''" "''Video''" "''MP4 (H.264)''"
        "[''ffmpeg'', ''-i'', ''clip.mov'', ''-y'', ''-c:v'', ''libx264'', ''-preset'', ''fast'',
          ''-c:a'', ''aac'', ''-b:a'', ''192k'', ''clip_converted.mp4'']"]
    initial_clip_command
  by blast

text \<open>
  The claim as stated fails: the encoder as \<^verbatim>\<open>__init__\<close> leaves it, where nothing
  requested overwriting, builds a command with \<open>-y\<close>.
\<close>

theorem overwrite_flag_without_request:
  "build_ffmpeg_command initial_encoder (parse_path ''clip.mov'') ''Video'' ''MP4 (H.264)''
     = Inr [''ffmpeg'', ''-i'', ''clip.mov'', ''-y'', ''-c:v'', ''libx264'', ''-preset'', ''fast'',
            ''-c:a'', ''aac'', ''-b:a'', ''192k'', ''clip_converted.mp4'']
   \<and> ''-y'' \<in> set [''ffmpeg'', ''-i'', ''clip.mov'', ''-y'', ''-c:v'', ''libx264'', ''-preset'',
            ''fast'', ''-c:a'', ''aac'', ''-b:a'', ''192k'', ''clip_converted.mp4'']"
  using initial_clip_command by simp

subsection \<open>What the commands depend on\<close>

text \<open>
  Claim C9, as the code has it. The encoder's command is a function of the input file,
  the category, the format and these settings: output directory, resolution, preset,
  video bitrate, frame rate, audio codec, audio bitrate and sample rate; it does not
  depend on the rest of the encoder (the encoding flag, the current process, the
  progress display, the list of inputs). The recorder's command is a function of the
  capture preset, the quality, the frame rate, the output file and the value of the
  environment variable \<open>DISPLAY\<close>; it does not depend on the rest of the recorder.
\<close>

theorem command_determined_by_settings:
  assumes "output_dir a = output_dir b"
    and "resolution_dropdown a = resolution_dropdown b"
    and "preset_slider a = preset_slider b"
    and "video_bitrate a = video_bitrate b"
    and "fps_dropdown a = fps_dropdown b"
    and "audio_codec a = audio_codec b"
    and "audio_bitrate a = audio_bitrate b"
    and "sample_rate a = sample_rate b"
    and "current_preset r = current_preset r'"
    and "current_output_file r = current_output_file r'"
  shows "build_ffmpeg_command a input_file category format_name
           = build_ffmpeg_command b input_file category format_name
       \<and> recorder_build_ffmpeg_command r display quality fps
           = recorder_build_ffmpeg_command r' display quality fps"
  using build_ffmpeg_command_settings [OF assms(1-8)] recorder_command_settings [OF assms(9,10)]
  by simp

theorem command_determined_by_settings_witness:
  "output_dir initial_encoder
     = output_dir (initial_encoder\<lparr>is_encoding := True, current_process := Some 7\<rparr>)
   \<and> resolution_dropdown initial_encoder
     = resolution_dropdown (initial_encoder\<lparr>is_encoding := True, current_process := Some 7\<rparr>)
   \<and> preset_slider initial_encoder
     = preset_slider (initial_encoder\<lparr>is_encoding := True, current_process := Some 7\<rparr>)
   \<and> video_bitrate initial_encoder
     = video_bitrate (initial_encoder\<lparr>is_encoding := True, current_process := Some 7\<rparr>)
   \<and> fps_dropdown initial_encoder
     = fps_dropdown (initial_encoder\<lparr>is_encoding := True, current_process := Some 7\<rparr>)
   \<and> audio_codec initial_encoder
     = audio_codec (initial_encoder\<lparr>is_encoding := True, current_process := Some 7\<rparr>)
   \<and> audio_bitrate initial_encoder
     = audio_bitrate (initial_encoder\<lparr>is_encoding := True, current_process := Some 7\<rparr>)
   \<and> sample_rate initial_encoder
     = sample_rate (initial_encoder\<lparr>is_encoding := True, current_process := Some 7\<rparr>)
   \<and> current_preset (initial_recorder (Path ''/'' [''rec'']))
     = current_preset ((initial_recorder (Path ''/'' [''rec'']))\<lparr>is_recording := True\<rparr>)
   \<and> current_output_file (initial_recorder (Path ''/'' [''rec'']))
     = current_output_file ((initial_recorder (Path ''/'' [''rec'']))\<lparr>is_recording := True\<rparr>)
   \<and> initial_encoder \<noteq> initial_encoder\<lparr>is_encoding := True, current_process := Some 7\<rparr>
   \<and> build_ffmpeg_command initial_encoder (parse_path ''clip.mov'') ''Video'' ''MP4 (H.264)''
     = build_ffmpeg_command (initial_encoder\<lparr>is_encoding := True, current_process := Some 7\<rparr>)
         (parse_path ''clip.mov'') ''Video'' ''MP4 (H.264)''
   \<and> recorder_build_ffmpeg_command (initial_recorder (Path ''/'' [''rec''])) None
         \<lparr>crf = 23, preset = ''fast'', label = ''Medium''\<rparr> 30
     = recorder_build_ffmpeg_command ((initial_recorder (Path ''/'' [''rec'']))\<lparr>is_recording := True\<rparr>)
         None \<lparr>crf = 23, preset = ''fast'', label = ''Medium''\<rparr> 30"
proof -
  have ne: "initial_encoder \<noteq> initial_encoder\<lparr>is_encoding := True, current_process := Some 7\<rparr>"
  proof
    assume "initial_encoder = initial_encoder\<lparr>is_encoding := True, current_process := Some 7\<rparr>"
    then have "is_encoding initial_encoder
        = is_encoding (initial_encoder\<lparr>is_encoding := True, current_process := Some 7\<rparr>)"
      by simp
    then show False by (simp add: initial_encoder_def)
  qed
  from command_determined_by_settings
    [of initial_encoder "initial_encoder\<lparr>is_encoding := True, current_process := Some 7\<rparr>"
        "initial_recorder (Path ''/'' [''rec''])"
        "(initial_recorder (Path ''/'' [''rec'']))\<lparr>is_recording := True\<rparr>"
        "parse_path ''clip.mov''" "''Video''" "''MP4 (H.264)''" None
        "\<lparr>crf = 23, preset = ''fast'', label = ''Medium''\<rparr>" 30] ne
  show ?thesis by simp
qed

text \<open>
  The claim as stated fails for the recorder: with the same settings, two values of the
  environment variable \<open>DISPLAY\<close> give two different commands.
\<close>

theorem capture_command_depends_on_display:
  "recorder_build_ffmpeg_command (initial_recorder (Path ''/'' [''rec'']))
      (Some '':0'') \<lparr>crf = 23, preset = ''fast'', label = ''Medium''\<rparr> 30
   \<noteq> recorder_build_ffmpeg_command (initial_recorder (Path ''/'' [''rec'']))
      (Some '':1'') \<lparr>crf = 23, preset = ''fast'', label = ''Medium''\<rparr> 30"
  by code_simp

subsection \<open>Capture presets with one audio source\<close>

text \<open>
  Claim C10. With the same quality, frame rate, display and output file, the capture
  command of the preset \<open>screen_audio\<close> is the command of the preset \<open>screen_mic\<close>,
  element for element: both add the audio input \<open>-f pulse -i default\<close> once. The
  preset \<open>screen_all\<close> adds that same input twice.
\<close>

theorem screen_audio_command_equals_screen_mic:
  "recorder_build_ffmpeg_command (self\<lparr>current_preset := ''screen_audio''\<rparr>) display quality fps
     = recorder_build_ffmpeg_command (self\<lparr>current_preset := ''screen_mic''\<rparr>) display quality fps
   \<and> recorder_build_ffmpeg_command (self\<lparr>current_preset := ''screen_audio''\<rparr>) display quality fps
     = [''ffmpeg'', ''-y'', ''-f'', ''x11grab'', ''-framerate'', str_int fps,
        ''-i'', (case display of Some d \<Rightarrow> d | None \<Rightarrow> '':0'')]
       @ [''-f'', ''pulse'', ''-i'', ''default'']
       @ [''-c:v'', ''libx264'', ''-preset'', preset quality, ''-crf'', str_int (crf quality),
          ''-pix_fmt'', ''yuv420p'', ''-c:a'', ''aac'', ''-b:a'', ''128k'',
          (case current_output_file self of Some f \<Rightarrow> str_path f | None \<Rightarrow> ''None'')]
   \<and> recorder_build_ffmpeg_command (self\<lparr>current_preset := ''screen_all''\<rparr>) display quality fps
     = [''ffmpeg'', ''-y'', ''-f'', ''x11grab'', ''-framerate'', str_int fps,
        ''-i'', (case display of Some d \<Rightarrow> d | None \<Rightarrow> '':0'')]
       @ [''-f'', ''pulse'', ''-i'', ''default''] @ [''-f'', ''pulse'', ''-i'', ''default'']
       @ [''-c:v'', ''libx264'', ''-preset'', preset quality, ''-crf'', str_int (crf quality),
          ''-pix_fmt'', ''yuv420p'', ''-c:a'', ''aac'', ''-b:a'', ''128k'',
          (case current_output_file self of Some f \<Rightarrow> str_path f | None \<Rightarrow> ''None'')]"
  by (simp add: recorder_build_ffmpeg_command_def)

subsection \<open>Pausing and resuming a recording\<close>

lemma running_recorder_process:
  "recording_process running_recorder = Some 4242 \<and> \<not> is_paused running_recorder
   \<and> is_recording running_recorder"
  by code_simp

lemma toggle_pause_running:
  assumes "recording_process self = Some pid" and "\<not> is_paused self"
  shows "toggle_pause self
       = (self\<lparr>is_paused := True, pause_btn_text := play_sign, status_label := pause_sign @ '' Paused''\<rparr>,
          [SendSignal pid SIGSTOP])"
  using assms by (simp add: toggle_pause_def)

lemma toggle_pause_paused:
  assumes "recording_process self = Some pid" and "is_paused self"
  shows "toggle_pause self
       = (self\<lparr>is_paused := False, pause_btn_text := pause_sign,
               status_label := red_circle @ '' Recording...''\<rparr>,
          [SendSignal pid SIGCONT])"
  using assms by (simp add: toggle_pause_def)

text \<open>
  Claim C7. Pausing a running recording and resuming it sends \<open>SIGSTOP\<close> and then
  \<open>SIGCONT\<close> to the one recording process and does nothing else to the outside world:
  no process is started. The recorder holds the same process before the pause, while
  paused and after the resume, and after the resume it is the recorder it was, running
  again (not paused, with the pause button and the status text of a running recording).
\<close>

theorem pause_resume_same_process:
  assumes "recording_process self = Some pid" and "\<not> is_paused self"
  shows "is_paused (fst (toggle_pause self))
       \<and> recording_process (fst (toggle_pause self)) = Some pid
       \<and> fst (toggle_pause (fst (toggle_pause self)))
           = self\<lparr>is_paused := False, pause_btn_text := pause_sign,
                  status_label := red_circle @ '' Recording...''\<rparr>
       \<and> recording_process (fst (toggle_pause (fst (toggle_pause self)))) = Some pid
       \<and> is_recording (fst (toggle_pause (fst (toggle_pause self)))) = is_recording self
       \<and> snd (toggle_pause self) @ snd (toggle_pause (fst (toggle_pause self)))
           = [SendSignal pid SIGSTOP, SendSignal pid SIGCONT]
       \<and> launched (snd (toggle_pause self) @ snd (toggle_pause (fst (toggle_pause self)))) = []"
proof -
  let ?p = "self\<lparr>is_paused := True, pause_btn_text := play_sign, status_label := pause_sign @ '' Paused''\<rparr>"
  have 1: "toggle_pause self = (?p, [SendSignal pid SIGSTOP])"
    by (rule toggle_pause_running [OF assms])
  have 2: "toggle_pause ?p
      = (?p\<lparr>is_paused := False, pause_btn_text := pause_sign,
               status_label := red_circle @ '' Recording...''\<rparr>, [SendSignal pid SIGCONT])"
    by (rule toggle_pause_paused) (simp_all add: assms)
  show ?thesis
    unfolding 1 fst_conv snd_conv 2 by (simp add: assms)
qed

theorem pause_resume_same_process_witness:
  "recording_process running_recorder = Some 4242 \<and> \<not> is_paused running_recorder
   \<and> recording_process (fst (toggle_pause (fst (toggle_pause running_recorder)))) = Some 4242
   \<and> snd (toggle_pause running_recorder) @ snd (toggle_pause (fst (toggle_pause running_recorder)))
        = [SendSignal 4242 SIGSTOP, SendSignal 4242 SIGCONT]"
proof -
  have h1: "recording_process running_recorder = Some 4242"
    and h2: "\<not> is_paused running_recorder"
    using running_recorder_process by simp_all
  from pause_resume_same_process [OF h1 h2] h1 h2 show ?thesis by simp
qed

subsection \<open>Stopping a recording\<close>





subsection \<open>The list of recent recordings\<close>

text \<open>
  The list holds at most ten names, all of them names of \<open>.mp4\<close> entries of the
  directory.
\<close>

lemma recordings_window:
  "length (recordings (refresh_recordings_list dir self)) \<le> 10
   \<and> set (recordings (refresh_recordings_list dir self)) \<subseteq> {n \<in> fst ` set dir. endswith n ''.mp4''}"
proof -
  have "set (take 10 (sort_key (\<lambda>e. - snd e) (glob_mp4 dir))) \<subseteq> set (glob_mp4 dir)"
    using set_take_subset [of 10 "sort_key (\<lambda>e. - snd e) (glob_mp4 dir)"] by simp
  then show ?thesis
    by (auto simp: refresh_recordings_list_def glob_mp4_def)
qed

text \<open>
  Claim C8 at a recording in the container format \<open>mkv\<close>, one of the five the recorder
  offers: the session writes \<open>recording_20240101_120000.mkv\<close>, the file is in the
  output directory when the recording stops, and the list of recent recordings is
  empty, because the list is built from the \<open>.mp4\<close> entries only.
\<close>

theorem mkv_recording_not_listed:
  "current_output_file mkv_recorder
     = Some (Path ''/'' [''home'', ''u'', ''Videos'', ''N01D-Recordings'',
                         ''recording_20240101_120000.mkv''])
   \<and> recordings (fst (stop_recording ExitsInTime
         [(''recording_20240101_120000.mkv'', 1704110460)] mkv_recorder)) = []"
  by code_simp

subsection \<open>Cancelling and stopping again\<close>







subsection \<open>Progress from the diagnostic stream\<close>

text \<open>
  Claim C3 at a line of the diagnostic stream that carries the marker \<open>time=\<close> (five
  seconds elapsed): the monitoring loop reads the line and does nothing with it. No
  progress callback is queued and the progress value stays what it was; only the
  count of reads of the encoding flag moves.
\<close>

theorem time_marker_line_yields_no_progress:
  "monitor idle_schedule 4242
     [''frame=  120 fps= 30 q=28.0 size=     512kB time=00:00:05.00 bitrate= 838.9kbits/s speed=1.0x'']
     clip_world
   = clip_world\<lparr>tick := 1\<rparr>
   \<and> contains ''frame=  120 fps= 30 q=28.0 size=     512kB time=00:00:05.00 bitrate= 838.9kbits/s speed=1.0x'' ''time=''
   \<and> pending clip_world = [] \<and> progress_bar (gui clip_world) = 0"
  by code_simp

subsection \<open>A batch of jobs\<close>















end
